theory Spec2Isabelle
  imports Main "HOL-Library.Sublist"
begin

section \<open>Static file delivery of quart (\<open>quart/static.py\<close>)\<close>

text \<open>
  The module joins an untrusted file name to a trusted directory (\<open>safe_join\<close>), serves
  the file found there (\<open>send_from_directory\<close>, \<open>send_file\<close>) and finds the directory
  a package lives in (\<open>PackageStatic._find_root_path\<close>). Python strings and byte strings
  are modelled as \<open>string\<close>; everything the module asks of the interpreter and of the
  operating system is read from two records, \<open>runtime\<close> and \<open>os_state\<close>. Exceptions are
  values of the type \<open>error\<close>, returned as \<open>Inl\<close>.
\<close>

subsection \<open>Exceptions and the environment\<close>

text \<open>
  Modelled from the spec: \<open>NotFound\<close> comes from \<open>quart/exceptions.py\<close>, which is not
  among the sources; the spec describes it as the client-facing condition for a file that
  is absent, is not a regular file, or lies outside the root. The other constructors are
  Python's built-in exceptions, with their message.
\<close>

datatype error =
    NotFound
  | RuntimeError string
  | ValueError string
  | OSError string
  | ImportError string
  | TypeError string

type_synonym bytes = string

datatype file_kind = Regular | Directory | Special

text \<open>
  The operating system as the module sees it: \<open>cwd\<close> holds the components of
  \<open>os.getcwd()\<close> (an absolute, normalised path), \<open>readlink p\<close> is the target of the
  symbolic link \<open>p\<close> (\<open>None\<close> when \<open>os.readlink\<close> fails: \<open>p\<close> is no link or does not
  exist), \<open>stat p\<close> is the kind of entry \<open>os.stat\<close> finds at \<open>p\<close> (\<open>None\<close> when it raises
  \<open>OSError\<close>), \<open>content p\<close> is what reading the whole of \<open>p\<close> returns (\<open>None\<close> when
  opening it raises \<open>OSError\<close>), and \<open>opened\<close> logs every attempt to open a file, with
  its mode, in order.
\<close>

record os_state =
  cwd :: "string list"
  readlink :: "string \<Rightarrow> string option"
  stat :: "string \<Rightarrow> file_kind option"
  content :: "string \<Rightarrow> bytes option"
  opened :: "(string \<times> string) list"

text \<open>
  A loaded module has no \<open>__file__\<close> attribute (\<open>None\<close>), or one that holds \<open>None\<close> or
  a string. A loader is its \<open>get_filename\<close> method, which may raise.
\<close>

record py_module =
  file_attr :: "string option option"

type_synonym loader = "string \<Rightarrow> error + string"

text \<open>
  The interpreter: \<open>sys_modules\<close> is \<open>sys.modules.get\<close>; \<open>get_loader\<close> is
  \<open>pkgutil.get_loader\<close>, which returns a loader or \<open>None\<close>, or raises \<open>ImportError\<close>
  when the search itself fails, as it does for a dotted name whose parent package cannot
  be imported; \<open>guess_type\<close> is \<open>mimetypes.guess_type\<close>, which returns the pair of a type
  and an encoding.
\<close>

record runtime =
  sys_modules :: "string \<Rightarrow> py_module option"
  get_loader :: "string \<Rightarrow> error + loader option"
  guess_type :: "string \<Rightarrow> string option \<times> string option"

subsection \<open>Strings and \<open>os.path\<close>\<close>

definition sep :: char where
  "sep = CHR ''/''"

text \<open>\<open>s.startswith(p)\<close>.\<close>

definition startswith :: "string \<Rightarrow> string \<Rightarrow> bool" where
  "startswith s p = prefix p s"

text \<open>\<open>s.split('/')\<close>: the pieces between the separators, at least one piece.\<close>

fun split_sep :: "string \<Rightarrow> string list" where
  "split_sep [] = [[]]"
| "split_sep (c # cs) =
     (if c = sep then [] # split_sep cs
      else (case split_sep cs of
              [] \<Rightarrow> [[c]]
            | x # xs \<Rightarrow> (c # x) # xs))"

text \<open>\<open>'/'.join(xs)\<close>.\<close>

fun join_sep :: "string list \<Rightarrow> string" where
  "join_sep [] = []"
| "join_sep [x] = x"
| "join_sep (x # y # ys) = x @ sep # join_sep (y # ys)"

text \<open>
  \<open>posixpath.join(a, b)\<close>: an absolute \<open>b\<close> replaces \<open>a\<close>; otherwise \<open>b\<close> is appended,
  after a separator unless \<open>a\<close> is empty or ends with one.
\<close>

definition os_path_join :: "string \<Rightarrow> string \<Rightarrow> string" where
  "os_path_join a b =
     (if startswith b [sep] then b
      else if a = [] \<or> last a = sep then a @ b
      else a @ sep # b)"

text \<open>\<open>posixpath.basename(p)\<close>: \<open>p[p.rfind('/') + 1:]\<close>.\<close>

definition os_path_basename :: "string \<Rightarrow> string" where
  "os_path_basename p = rev (takeWhile (\<lambda>c. c \<noteq> sep) (rev p))"

text \<open>
  \<open>posixpath.dirname(p)\<close>: \<open>head = p[:p.rfind('/') + 1]\<close>, with the trailing separators
  stripped unless \<open>head\<close> consists of separators only.
\<close>

definition os_path_dirname :: "string \<Rightarrow> string" where
  "os_path_dirname p =
     (let head = rev (dropWhile (\<lambda>c. c \<noteq> sep) (rev p))
      in if head \<noteq> [] \<and> head \<noteq> replicate (length head) sep
         then rev (dropWhile (\<lambda>c. c = sep) (rev head))
         else head)"

text \<open>
  The loop of \<open>posixpath.normpath\<close> over the pieces of the path: empty pieces and
  \<open>.\<close> are dropped, \<open>..\<close> removes the piece before it, and is kept only in a relative
  path that has nothing left to remove.
\<close>

fun normpath_comps :: "bool \<Rightarrow> string list \<Rightarrow> string list \<Rightarrow> string list" where
  "normpath_comps initial_slashes new_comps [] = new_comps"
| "normpath_comps initial_slashes new_comps (piece # comps) =
     (if piece = [] \<or> piece = ''.'' then normpath_comps initial_slashes new_comps comps
      else if piece \<noteq> ''..'' \<or> (\<not> initial_slashes \<and> new_comps = [])
              \<or> (new_comps \<noteq> [] \<and> last new_comps = ''..'')
        then normpath_comps initial_slashes (new_comps @ [piece]) comps
      else if new_comps \<noteq> [] then normpath_comps initial_slashes (butlast new_comps) comps
      else normpath_comps initial_slashes new_comps comps)"

text \<open>
  \<open>posixpath.normpath(path)\<close>. Exactly two leading separators are kept, one or three
  and more become one.
\<close>

definition os_path_normpath :: "string \<Rightarrow> string" where
  "os_path_normpath path =
     (if path = [] then ''.''
      else
        let initial_slashes =
              (if startswith path [sep]
               then (if startswith path [sep, sep] \<and> \<not> startswith path [sep, sep, sep]
                     then 2 else 1)
               else (0::nat));
            comps = normpath_comps (initial_slashes \<noteq> 0) [] (split_sep path);
            path' = replicate initial_slashes sep @ join_sep comps
        in if path' = [] then ''.'' else path')"

text \<open>\<open>posixpath.abspath(path)\<close>, with \<open>os.getcwd()\<close> written from its components.\<close>

definition getcwd :: "'a os_state_scheme \<Rightarrow> string" where
  "getcwd os = (if cwd os = [] then [sep] else concat (map (\<lambda>c. sep # c) (cwd os)))"

definition os_path_abspath :: "'a os_state_scheme \<Rightarrow> string \<Rightarrow> string" where
  "os_path_abspath os path =
     os_path_normpath (if startswith path [sep] then path else os_path_join (getcwd os) path)"

text \<open>\<open>os.path.isfile(path)\<close>: \<open>os.stat\<close> succeeds and finds a regular file.\<close>

definition os_path_isfile :: "'a os_state_scheme \<Rightarrow> string \<Rightarrow> bool" where
  "os_path_isfile os path = (stat os path = Some Regular)"

text \<open>
  \<open>open(path, mode)\<close> for reading. The attempt is logged whether or not it succeeds;
  the handle carries the name, the mode and the bytes that \<open>read()\<close> returns.
\<close>

datatype file_handle = FileHandle string string bytes

fun read :: "file_handle \<Rightarrow> bytes" where
  "read (FileHandle name mode data) = data"

definition py_open :: "os_state \<Rightarrow> string \<Rightarrow> string \<Rightarrow> (error + file_handle) \<times> os_state" where
  "py_open os path mode =
     (let os' = os\<lparr>opened := opened os @ [(path, mode)]\<rparr>
      in case content os path of
           None \<Rightarrow> (Inl (OSError path), os')
         | Some data \<Rightarrow> (Inr (FileHandle path mode data), os'))"

subsection \<open>\<open>pathlib\<close>: building and resolving a path\<close>

text \<open>
  A \<open>Path\<close> is its root flag and its parts. \<open>Path(a, b, ...)\<close> splits each argument at
  the separators, drops empty parts and \<open>.\<close>, and lets an absolute argument discard all
  arguments before it.
\<close>

record pure_path =
  is_absolute :: bool
  parts :: "string list"

definition path_names :: "string \<Rightarrow> string list" where
  "path_names s = filter (\<lambda>x. x \<noteq> [] \<and> x \<noteq> ''.'') (split_sep s)"

definition add_part :: "pure_path \<Rightarrow> string \<Rightarrow> pure_path" where
  "add_part p a =
     (if startswith a [sep] then \<lparr>is_absolute = True, parts = path_names a\<rparr>
      else p\<lparr>parts := parts p @ path_names a\<rparr>)"

definition Path :: "string list \<Rightarrow> pure_path" where
  "Path args = foldl add_part \<lparr>is_absolute = False, parts = []\<rparr> args"

text \<open>
  \<open>str(p)\<close> of a resolved, hence absolute, path given by its components: the
  components, each after a separator, and \<open>/\<close> for the root itself.
\<close>

definition py_str :: "string list \<Rightarrow> string" where
  "py_str comps = (if comps = [] then [sep] else concat (map (\<lambda>c. sep # c) comps))"

text \<open>
  The loop of \<open>pathlib\<close>'s \<open>_resolve(path, rest)\<close>, run without \<open>strict\<close>. \<open>path\<close> is the
  resolved path so far, as its components; \<open>seen\<close> maps the links met so far to their
  resolved path, or to \<open>None\<close> while they are being resolved: meeting such a link
  again is a symlink loop and raises \<open>RuntimeError\<close>. The target of a link is resolved
  by a recursive call, relative to the directory of the link unless the target is
  absolute; \<open>depth\<close> bounds how deep these calls nest, and the result is \<open>None\<close> when the
  bound is reached. A name under the root \<open>/\<close> resolves to \<open>/name\<close>, also when the root
  is the working directory.
\<close>

type_synonym seen = "string \<Rightarrow> string list option option"

fun resolve_names ::
  "'a os_state_scheme \<Rightarrow> nat \<Rightarrow> seen \<Rightarrow> string list \<Rightarrow> string list
     \<Rightarrow> (error + string list \<times> seen) option" where
  "resolve_names os depth seen path [] = Some (Inr (path, seen))"
| "resolve_names os depth seen path (name # rest) =
     (if name = [] \<or> name = ''.'' then resolve_names os depth seen path rest
      else if name = ''..'' then resolve_names os depth seen (butlast path) rest
      else
        let newpath = path @ [name] in
        (case seen (py_str newpath) of
           Some (Some p) \<Rightarrow> resolve_names os depth seen p rest
         | Some None \<Rightarrow>
             Some (Inl (RuntimeError
               (''Symlink loop from '' @ [CHR 0x27] @ py_str newpath @ [CHR 0x27])))
         | None \<Rightarrow>
            (case readlink os (py_str newpath) of
               None \<Rightarrow> resolve_names os depth seen newpath rest
             | Some target \<Rightarrow>
                (case depth of
                   0 \<Rightarrow> None
                 | Suc depth' \<Rightarrow>
                    (case resolve_names os depth' (seen(py_str newpath \<mapsto> None))
                            (if startswith target [sep] then [] else path) (split_sep target) of
                       None \<Rightarrow> None
                     | Some (Inl e) \<Rightarrow> Some (Inl e)
                     | Some (Inr (p, seen')) \<Rightarrow>
                         resolve_names os depth (seen'(py_str newpath \<mapsto> Some p)) p rest)))))"

text \<open>
  \<open>Path.resolve()\<close>: a relative path starts at the working directory. The resolved
  components contain neither \<open>.\<close> nor \<open>..\<close>, so the final \<open>normpath\<close> leaves them as
  they are.
\<close>

definition resolve :: "'a os_state_scheme \<Rightarrow> nat \<Rightarrow> pure_path \<Rightarrow> (error + string list) option" where
  "resolve os depth p =
     (case resolve_names os depth (\<lambda>_. None) (if is_absolute p then [] else cwd os) (parts p) of
        None \<Rightarrow> None
      | Some (Inl e) \<Rightarrow> Some (Inl e)
      | Some (Inr (path, seen')) \<Rightarrow> Some (Inr path))"

subsection \<open>\<open>safe_join\<close>\<close>

definition safe_join ::
  "'a os_state_scheme \<Rightarrow> nat \<Rightarrow> string \<Rightarrow> string list \<Rightarrow> (error + string list) option" where
  "safe_join os depth directory paths =
     (case resolve os depth (Path [directory]) of
        None \<Rightarrow> None
      | Some (Inl e) \<Rightarrow> Some (Inl e)
      | Some (Inr safe_path) \<Rightarrow>
         (case resolve os depth (Path (directory # paths)) of
            None \<Rightarrow> None
          | Some (Inl e) \<Rightarrow> Some (Inl e)
          | Some (Inr full_path) \<Rightarrow>
              if \<not> startswith (py_str full_path) (py_str safe_path)
              then Some (Inl NotFound)
              else Some (Inr full_path)))"

subsection \<open>\<open>send_file\<close> and \<open>send_from_directory\<close>\<close>

definition DEFAULT_MIMETYPE :: string where
  "DEFAULT_MIMETYPE = ''application/octet-stream''"

text \<open>
  Modelled from the spec: the response class (\<open>quart/wrappers.py\<close>, reached through
  \<open>current_app.response_class\<close>) is not among the sources. The spec describes it as a
  value object with status, headers and body fields and a constructor
  \<open>makeResponse(bytes, mimetype)\<close> that yields the full byte content, the content-type
  and the default success status.
\<close>

record response =
  body :: bytes
  content_type :: string
  status :: nat

definition response_class :: "bytes \<Rightarrow> string \<Rightarrow> response" where
  "response_class data mimetype = \<lparr>body = data, content_type = mimetype, status = 200\<rparr>"

text \<open>
  \<open>mimetypes.guess_type(os.path.basename(filename))[0] or DEFAULT_MIMETYPE\<close>: Python's
  \<open>or\<close> takes the default for \<open>None\<close> and for the empty string.
\<close>

definition guess_mimetype :: "'a runtime_scheme \<Rightarrow> string \<Rightarrow> string" where
  "guess_mimetype rt filename =
     (case fst (guess_type rt (os_path_basename filename)) of
        None \<Rightarrow> DEFAULT_MIMETYPE
      | Some t \<Rightarrow> if t = [] then DEFAULT_MIMETYPE else t)"

definition send_file ::
  "'a runtime_scheme \<Rightarrow> os_state \<Rightarrow> string \<Rightarrow> (error + response) \<times> os_state" where
  "send_file rt os filename =
     (let mimetype = guess_mimetype rt filename
      in case py_open os filename ''rb'' of
           (Inl e, os') \<Rightarrow> (Inl e, os')
         | (Inr file, os') \<Rightarrow> (Inr (response_class (read file) mimetype), os'))"

definition send_from_directory ::
  "'a runtime_scheme \<Rightarrow> os_state \<Rightarrow> nat \<Rightarrow> string \<Rightarrow> string
     \<Rightarrow> ((error + response) \<times> os_state) option" where
  "send_from_directory rt os depth directory file_name =
     (case safe_join os depth directory [file_name] of
        None \<Rightarrow> None
      | Some (Inl e) \<Rightarrow> Some (Inl e, os)
      | Some (Inr file_path) \<Rightarrow>
          if \<not> os_path_isfile os (py_str file_path) then Some (Inl NotFound, os)
          else Some (send_file rt os (py_str file_path)))"

subsection \<open>\<open>PackageStatic\<close>\<close>

text \<open>
  The attributes \<open>_static_folder\<close> and \<open>_static_url_path\<close> are the fields
  \<open>static_folder_attr\<close> and \<open>static_url_path_attr\<close>; the properties of the class keep
  their names.
\<close>

record package_static =
  import_name :: string
  template_folder :: "string option"
  root_path :: string
  static_folder_attr :: "string option"
  static_url_path_attr :: "string option"

text \<open>
  Line 104, \<open>os.path.dirname(os.path.abspath(file_path))\<close>: \<open>abspath\<close> raises \<open>TypeError\<close>
  for a \<open>file_path\<close> that is \<open>None\<close>.
\<close>

definition dirname_abspath :: "'a os_state_scheme \<Rightarrow> string option \<Rightarrow> error + string" where
  "dirname_abspath os file_path =
     (case file_path of
        None \<Rightarrow> Inl (TypeError ''expected str, bytes or os.PathLike object, not NoneType'')
      | Some f \<Rightarrow> Inr (os_path_dirname (os_path_abspath os f)))"

text \<open>
  \<open>PackageStatic._find_root_path(root_path)\<close>, with \<open>self.import_name\<close> as \<open>name\<close>. An
  exception of \<open>pkgutil.get_loader\<close> or of \<open>get_filename\<close> is not caught.
\<close>

definition find_root_path ::
  "'a runtime_scheme \<Rightarrow> 'b os_state_scheme \<Rightarrow> string \<Rightarrow> string option \<Rightarrow> error + string" where
  "find_root_path rt os name root_path' =
     (case root_path' of
        Some r \<Rightarrow> Inr r
      | None \<Rightarrow>
         (case (case sys_modules rt name of None \<Rightarrow> None | Some module \<Rightarrow> file_attr module) of
            Some file_path \<Rightarrow> dirname_abspath os file_path
          | None \<Rightarrow>
             (case get_loader rt name of
                Inl e \<Rightarrow> Inl e
              | Inr None \<Rightarrow> Inr (getcwd os)
              | Inr (Some loader) \<Rightarrow>
                  if name = ''__main__'' then Inr (getcwd os)
                  else (case loader name of
                          Inl e \<Rightarrow> Inl e
                        | Inr file_path \<Rightarrow> dirname_abspath os (Some file_path)))))"

text \<open>The constructor \<open>PackageStatic(import_name, template_folder, root_path)\<close>.\<close>

definition PackageStatic ::
  "'a runtime_scheme \<Rightarrow> 'b os_state_scheme \<Rightarrow> string \<Rightarrow> string option \<Rightarrow> string option
     \<Rightarrow> error + package_static" where
  "PackageStatic rt os name template_folder' root_path' =
     (case find_root_path rt os name root_path' of
        Inl e \<Rightarrow> Inl e
      | Inr r \<Rightarrow>
          Inr \<lparr>import_name = name, template_folder = template_folder', root_path = r,
               static_folder_attr = None, static_url_path_attr = None\<rparr>)"

definition static_folder :: "package_static \<Rightarrow> string option" where
  "static_folder self =
     (case static_folder_attr self of
        Some folder \<Rightarrow> Some (os_path_join (root_path self) folder)
      | None \<Rightarrow> None)"

definition set_static_folder :: "package_static \<Rightarrow> string \<Rightarrow> package_static" where
  "set_static_folder self folder = self\<lparr>static_folder_attr := Some folder\<rparr>"

definition static_url_path :: "package_static \<Rightarrow> string option" where
  "static_url_path self =
     (case static_url_path_attr self of
        Some url \<Rightarrow> Some url
      | None \<Rightarrow>
         (case static_folder self of
            Some folder \<Rightarrow> Some (sep # os_path_basename folder)
          | None \<Rightarrow> None))"

definition set_static_url_path :: "package_static \<Rightarrow> string \<Rightarrow> package_static" where
  "set_static_url_path self url = self\<lparr>static_url_path_attr := Some url\<rparr>"

definition has_static_folder :: "package_static \<Rightarrow> bool" where
  "has_static_folder self = (static_folder self \<noteq> None)"

definition send_static_file ::
  "'a runtime_scheme \<Rightarrow> os_state \<Rightarrow> nat \<Rightarrow> package_static \<Rightarrow> string
     \<Rightarrow> ((error + response) \<times> os_state) option" where
  "send_static_file rt os depth self filename =
     (if \<not> has_static_folder self
      then Some (Inl (RuntimeError ''No static folder for this object''), os)
      else send_from_directory rt os depth (the (static_folder self)) filename)"

definition open_resource ::
  "package_static \<Rightarrow> os_state \<Rightarrow> string \<Rightarrow> string \<Rightarrow> (error + file_handle) \<times> os_state" where
  "open_resource self os path mode =
     (if mode \<notin> {''r'', ''rb''}
      then (Inl (ValueError ''Files can only be opened for reading''), os)
      else py_open os (os_path_join (root_path self) path) mode)"

subsection \<open>Resolution without symbolic links\<close>

text \<open>
  What the loop of \<open>_resolve\<close> computes when no path it meets is a link: the names are
  applied to the path one after the other. The function is not part of the module; it
  is shown below to agree with \<open>resolve_names\<close> on such file systems.
\<close>

fun walk_names :: "string list \<Rightarrow> string list \<Rightarrow> string list" where
  "walk_names path [] = path"
| "walk_names path (name # rest) =
     (if name = [] \<or> name = ''.'' then walk_names path rest
      else if name = ''..'' then walk_names (butlast path) rest
      else walk_names (path @ [name]) rest)"

subsection \<open>Concrete environments\<close>

text \<open>
  A file system without symbolic links and with working directory \<open>/home/u\<close>. The
  application lives in \<open>/srv/www\<close>: the directory \<open>/srv/www/blog/static\<close> holds the
  regular files \<open>index.html\<close> and \<open>LICENSE\<close>.
\<close>

definition plain_os :: os_state where
  "plain_os =
     \<lparr>cwd = [''home'', ''u''],
      readlink = (\<lambda>p. None),
      stat = (\<lambda>p. if p = ''/srv/www/blog/static/index.html'' then Some Regular
                    else if p = ''/srv/www/blog/static/LICENSE'' then Some Regular
                    else if p = ''/srv/www/blog/static'' then Some Directory
                    else if p = ''/srv/www/blog'' then Some Directory
                    else None),
      content = (\<lambda>p. if p = ''/srv/www/blog/static/index.html'' then Some ''<html></html>''
                       else if p = ''/srv/www/blog/static/LICENSE'' then Some ''MIT''
                       else None),
      opened = []\<rparr>"

text \<open>
  The same file system with two symbolic links in the static folder: \<open>latest\<close> points
  to \<open>index.html\<close>, and \<open>up\<close> points two directories up.
\<close>

definition linked_os :: os_state where
  "linked_os =
     plain_os\<lparr>readlink :=
       (\<lambda>p. if p = ''/srv/www/blog/static/latest'' then Some ''index.html''
            else if p = ''/srv/www/blog/static/up'' then Some ''../..''
            else None)\<rparr>"

text \<open>
  An interpreter started as \<open>python /srv/www/run.py\<close>: the entry-point module
  \<open>__main__\<close> is loaded with its file and the namespace package \<open>ns\<close> with a
  \<open>__file__\<close> that is \<open>None\<close>; the package \<open>blog\<close> is importable from
  \<open>/srv/www/blog/__init__.py\<close> and not yet loaded; the search for \<open>nosuch.sub\<close> fails,
  since there is no package \<open>nosuch\<close>; the type table knows \<open>.html\<close>.
\<close>

definition script_runtime :: runtime where
  "script_runtime =
     \<lparr>sys_modules =
        (\<lambda>n. if n = ''__main__'' then Some \<lparr>file_attr = Some (Some ''/srv/www/run.py'')\<rparr>
             else if n = ''ns'' then Some \<lparr>file_attr = Some None\<rparr>
             else None),
      get_loader =
        (\<lambda>n. if n = ''__main__'' then Inr (Some (\<lambda>m. Inr ''/srv/www/run.py''))
             else if n = ''blog'' then Inr (Some (\<lambda>m. Inr ''/srv/www/blog/__init__.py''))
             else if n = ''nosuch.sub''
               then Inl (ImportError ''Error while finding loader for nosuch.sub'')
             else Inr None),
      guess_type = (\<lambda>b. if suffix ''.html'' b then (Some ''text/html'', None)
                         else (None, None))\<rparr>"

text \<open>
  An interactive interpreter: \<open>__main__\<close> is loaded without a file, and its loader
  knows no file name.
\<close>

definition interactive_runtime :: runtime where
  "interactive_runtime =
     \<lparr>sys_modules = (\<lambda>n. if n = ''__main__'' then Some \<lparr>file_attr = None\<rparr> else None),
      get_loader = (\<lambda>n. if n = ''__main__'' then Inr (Some (\<lambda>m. Inl (ImportError m)))
                          else Inr None),
      guess_type = (\<lambda>b. (None, None))\<rparr>"

text \<open>The package \<open>blog\<close>, with the static folder \<open>static\<close> and without one.\<close>

definition blog_package :: package_static where
  "blog_package =
     \<lparr>import_name = ''blog'', template_folder = None, root_path = ''/srv/www/blog'',
      static_folder_attr = Some ''static'', static_url_path_attr = None\<rparr>"

definition bare_package :: package_static where
  "bare_package =
     \<lparr>import_name = ''blog'', template_folder = None, root_path = ''/srv/www/blog'',
      static_folder_attr = None, static_url_path_attr = None\<rparr>"

section \<open>Properties\<close>

subsection \<open>Paths and their strings\<close>

lemma py_str_prefix: "prefix xs ys \<Longrightarrow> prefix (py_str xs) (py_str ys)"
proof (cases xs)
  case Nil
  then show ?thesis by (cases ys) (simp_all add: py_str_def)
next
  case (Cons x xs')
  assume "prefix xs ys"
  then obtain zs where "ys = xs @ zs" by (auto simp: prefix_def)
  with Cons show ?thesis by (simp add: py_str_def)
qed

lemma split_sep_no_sep: "c \<in> set (split_sep s) \<Longrightarrow> sep \<notin> set c"
  by (induction s arbitrary: c) (auto split: list.splits if_splits)

lemma prefix_no_sep:
  "sep \<notin> set a \<Longrightarrow> prefix a (x @ sep # y) \<Longrightarrow> prefix a x"
  by (auto simp: prefix_append prefix_Cons)

lemma prefix_two_parts:
  "sep \<notin> set a \<Longrightarrow> sep \<notin> set x \<Longrightarrow> prefix (a @ sep # b) (x @ sep # y)
     \<Longrightarrow> a = x \<and> prefix b y"
proof (induction a arbitrary: x)
  case Nil
  then show ?case by (cases x) auto
next
  case (Cons h a)
  then show ?case by (cases x) auto
qed

lemma last_two_cases:
  obtains "cs = []" | c where "cs = [c]" | ds a b where "cs = ds @ [a, b]"
proof (cases cs rule: rev_cases)
  case Nil
  then show ?thesis using that(1) by simp
next
  case (snoc ys b)
  show ?thesis
  proof (cases ys rule: rev_cases)
    case Nil
    with snoc show ?thesis using that(2) by simp
  next
    case (snoc ds a)
    with \<open>cs = ys @ [b]\<close> show ?thesis using that(3) by simp
  qed
qed

subsection \<open>Resolution without symbolic links\<close>

lemma resolve_names_no_links:
  "readlink os = (\<lambda>p. None) \<Longrightarrow>
   resolve_names os depth (\<lambda>k. None) path names =
     Some (Inr (walk_names path names, \<lambda>k. None))"
  by (induction names arbitrary: path) (simp_all add: Let_def)

lemma resolve_no_links:
  "readlink os = (\<lambda>p. None) \<Longrightarrow>
   resolve os depth p =
     Some (Inr (walk_names (if is_absolute p then [] else cwd os) (parts p)))"
  by (simp add: resolve_def resolve_names_no_links)

lemma walk_names_append: "walk_names path (xs @ ys) = walk_names (walk_names path xs) ys"
  by (induction xs arbitrary: path) simp_all

lemma Path_parts_no_sep: "list_all (\<lambda>c. sep \<notin> set c) (parts (Path [directory]))"
  by (auto simp: Path_def add_part_def path_names_def list_all_iff dest: split_sep_no_sep)

lemma Path_dotdot_etc_passwd:
  "Path [directory, ''..'', ''..'', ''etc/passwd''] =
     \<lparr>is_absolute = is_absolute (Path [directory]),
      parts = parts (Path [directory]) @ [''..'', ''..'', ''etc'', ''passwd'']\<rparr>"
  by (simp add: Path_def add_part_def path_names_def startswith_def sep_def)

subsection \<open>Resolution with symbolic links\<close>

text \<open>
  The loop of \<open>_resolve\<close> on any file system: the components it returns contain no
  separator; only links enter \<open>seen\<close>; a list of names is resolved by resolving its
  first part and then the rest. Hence \<open>etc/passwd\<close> two levels above a resolved
  directory resolves to itself when neither \<open>etc\<close> nor \<open>etc/passwd\<close> there is a link.
\<close>

lemma butlast_no_sep:
  "list_all (\<lambda>c. sep \<notin> set c) path \<Longrightarrow> list_all (\<lambda>c. sep \<notin> set c) (butlast path)"
  by (auto simp: list_all_iff dest: in_set_butlastD)

lemma split_sep_list_all: "list_all (\<lambda>c. sep \<notin> set c) (split_sep s)"
  by (auto simp: list_all_iff dest: split_sep_no_sep)

lemma resolve_names_no_sep:
  "resolve_names os depth seen path names = Some (Inr (p, seen')) \<Longrightarrow>
   list_all (\<lambda>c. sep \<notin> set c) path \<Longrightarrow> list_all (\<lambda>c. sep \<notin> set c) names \<Longrightarrow>
   (\<forall>k q. seen k = Some (Some q) \<longrightarrow> list_all (\<lambda>c. sep \<notin> set c) q) \<Longrightarrow>
   list_all (\<lambda>c. sep \<notin> set c) p
   \<and> (\<forall>k q. seen' k = Some (Some q) \<longrightarrow> list_all (\<lambda>c. sep \<notin> set c) q)"
proof (induction os depth seen path names arbitrary: p seen' rule: resolve_names.induct)
  case (1 os depth seen path)
  then show ?case by auto
next
  case (2 os depth seen path name rest)
  let ?Q = "list_all (\<lambda>c. sep \<notin> set c)"
  note res = "2.prems"(1)
  have path: "?Q path" and seen: "\<forall>k q. seen k = Some (Some q) \<longrightarrow> ?Q q"
    using "2.prems" by simp_all
  have name: "sep \<notin> set name" and rest: "?Q rest"
    using "2.prems"(3) by simp_all
  show ?case
  proof (cases "name = [] \<or> name = ''.''")
    case True
    with res have "resolve_names os depth seen path rest = Some (Inr (p, seen'))" by simp
    from "2.IH"(1) [OF True this path rest seen] show ?thesis .
  next
    case skip: False
    show ?thesis
    proof (cases "name = ''..''")
      case True
      with skip res have "resolve_names os depth seen (butlast path) rest = Some (Inr (p, seen'))"
        by simp
      from "2.IH"(2) [OF skip True this butlast_no_sep [OF path] rest seen] show ?thesis .
    next
      case up: False
      define x where "x = path @ [name]"
      have x: "?Q x" using path name by (simp add: x_def)
      show ?thesis
      proof (cases "seen (py_str x)")
        case None
        note unseen = this
        show ?thesis
        proof (cases "readlink os (py_str x)")
          case None
          with skip up unseen res have "resolve_names os depth seen x rest = Some (Inr (p, seen'))"
            by (simp add: x_def Let_def)
          from "2.IH"(3) [OF skip up x_def unseen None this x rest seen] show ?thesis .
        next
          case (Some target)
          note link = this
          show ?thesis
          proof (cases depth)
            case 0
            with skip up unseen link res show ?thesis by (simp add: x_def Let_def)
          next
            case (Suc d)
            let ?inner = "resolve_names os d (seen(py_str x \<mapsto> None))
                            (if startswith target [sep] then [] else path) (split_sep target)"
            from skip up unseen link Suc res obtain q s where
              inner: "?inner = Some (Inr (q, s))" and
              outer: "resolve_names os depth (s(py_str x \<mapsto> Some q)) q rest = Some (Inr (p, seen'))"
              by (auto simp: x_def Let_def split: option.splits sum.splits prod.splits)
            have start: "?Q (if startswith target [sep] then [] else path)"
              using path by simp
            have seen1: "\<forall>k q. (seen(py_str x \<mapsto> None)) k = Some (Some q) \<longrightarrow> ?Q q"
              using seen by simp
            from "2.IH"(4) [OF skip up x_def unseen link Suc inner start split_sep_list_all seen1]
            have q: "?Q q" and s: "\<forall>k r. s k = Some (Some r) \<longrightarrow> ?Q r"
              by simp_all
            have seen2: "\<forall>k r. (s(py_str x \<mapsto> Some q)) k = Some (Some r) \<longrightarrow> ?Q r"
              using q s by simp
            from "2.IH"(5) [OF skip up x_def unseen link Suc inner refl refl outer q rest seen2]
            show ?thesis .
          qed
        qed
      next
        case (Some v)
        show ?thesis
        proof (cases v)
          case None
          with skip up Some res show ?thesis by (simp add: x_def Let_def)
        next
          case (Some q)
          with skip up \<open>seen (py_str x) = Some v\<close> res
          have "resolve_names os depth seen q rest = Some (Inr (p, seen'))"
            by (simp add: x_def Let_def)
          moreover have "?Q q" using seen \<open>seen (py_str x) = Some v\<close> Some by blast
          ultimately show ?thesis
            using "2.IH"(6) [OF skip up x_def \<open>seen (py_str x) = Some v\<close> Some _ _ rest seen]
            by blast
        qed
      qed
    qed
  qed
qed

lemma resolve_no_sep:
  assumes "resolve os depth p = Some (Inr comps)"
    and "list_all (\<lambda>c. sep \<notin> set c) (cwd os)"
    and "list_all (\<lambda>c. sep \<notin> set c) (parts p)"
  shows "list_all (\<lambda>c. sep \<notin> set c) comps"
proof -
  from assms(1) obtain s where
    "resolve_names os depth (\<lambda>k. None) (if is_absolute p then [] else cwd os) (parts p)
       = Some (Inr (comps, s))"
    by (auto simp: resolve_def split: option.splits sum.splits prod.splits)
  moreover have "list_all (\<lambda>c. sep \<notin> set c) (if is_absolute p then [] else cwd os)"
    using assms(2) by simp
  ultimately show ?thesis
    using resolve_names_no_sep assms(3) by blast
qed


lemma resolve_names_append:
  "resolve_names os depth seen path (xs @ ys) =
     (case resolve_names os depth seen path xs of
        None \<Rightarrow> None
      | Some (Inl e) \<Rightarrow> Some (Inl e)
      | Some (Inr (p, s)) \<Rightarrow> resolve_names os depth s p ys)"
  by (induction xs arbitrary: seen path)
    (auto simp: Let_def split: option.splits sum.splits prod.splits nat.splits)

lemma resolve_names_seen_links:
  "resolve_names os depth seen path names = Some (Inr (p, seen')) \<Longrightarrow>
   (\<forall>k. readlink os k = None \<longrightarrow> seen k = None) \<Longrightarrow>
   (\<forall>k. readlink os k = None \<longrightarrow> seen' k = None)"
proof (induction os depth seen path names arbitrary: p seen' rule: resolve_names.induct)
  case (1 os depth seen path)
  then show ?case by auto
next
  case (2 os depth seen path name rest)
  note res = "2.prems"(1) and seen = "2.prems"(2)
  show ?case
  proof (cases "name = [] \<or> name = ''.''")
    case True
    with res have "resolve_names os depth seen path rest = Some (Inr (p, seen'))" by simp
    from "2.IH"(1) [OF True this seen] show ?thesis .
  next
    case skip: False
    show ?thesis
    proof (cases "name = ''..''")
      case True
      with skip res have "resolve_names os depth seen (butlast path) rest = Some (Inr (p, seen'))"
        by simp
      from "2.IH"(2) [OF skip True this seen] show ?thesis .
    next
      case up: False
      define x where "x = path @ [name]"
      show ?thesis
      proof (cases "seen (py_str x)")
        case None
        note unseen = this
        show ?thesis
        proof (cases "readlink os (py_str x)")
          case None
          with skip up unseen res have "resolve_names os depth seen x rest = Some (Inr (p, seen'))"
            by (simp add: x_def Let_def)
          from "2.IH"(3) [OF skip up x_def unseen None this seen] show ?thesis .
        next
          case (Some target)
          note link = this
          show ?thesis
          proof (cases depth)
            case 0
            with skip up unseen link res show ?thesis by (simp add: x_def Let_def)
          next
            case (Suc d)
            let ?inner = "resolve_names os d (seen(py_str x \<mapsto> None))
                            (if startswith target [sep] then [] else path) (split_sep target)"
            from skip up unseen link Suc res obtain q s where
              inner: "?inner = Some (Inr (q, s))" and
              outer: "resolve_names os depth (s(py_str x \<mapsto> Some q)) q rest = Some (Inr (p, seen'))"
              by (auto simp: x_def Let_def split: option.splits sum.splits prod.splits)
            have seen1: "\<forall>k. readlink os k = None \<longrightarrow> (seen(py_str x \<mapsto> None)) k = None"
              using seen link by auto
            from "2.IH"(4) [OF skip up x_def unseen link Suc inner seen1]
            have s: "\<forall>k. readlink os k = None \<longrightarrow> s k = None" .
            have seen2: "\<forall>k. readlink os k = None \<longrightarrow> (s(py_str x \<mapsto> Some q)) k = None"
              using s link by auto
            from "2.IH"(5) [OF skip up x_def unseen link Suc inner refl refl outer seen2]
            show ?thesis .
          qed
        qed
      next
        case (Some v)
        show ?thesis
        proof (cases v)
          case None
          with skip up Some res show ?thesis by (simp add: x_def Let_def)
        next
          case (Some q)
          with skip up \<open>seen (py_str x) = Some v\<close> res
          have "resolve_names os depth seen q rest = Some (Inr (p, seen'))"
            by (simp add: x_def Let_def)
          from "2.IH"(6) [OF skip up x_def \<open>seen (py_str x) = Some v\<close> Some this seen]
          show ?thesis .
        qed
      qed
    qed
  qed
qed

lemma resolve_etc_passwd:
  assumes safe: "resolve os depth (Path [directory]) = Some (Inr safe_path)"
    and etc: "readlink os (py_str (butlast (butlast safe_path) @ [''etc''])) = None"
    and passwd: "readlink os (py_str (butlast (butlast safe_path) @ [''etc'', ''passwd''])) = None"
  shows "resolve os depth (Path [directory, ''..'', ''..'', ''etc/passwd''])
           = Some (Inr (butlast (butlast safe_path) @ [''etc'', ''passwd'']))"
proof -
  let ?base = "if is_absolute (Path [directory]) then [] else cwd os"
  from safe obtain s where
    dir: "resolve_names os depth (\<lambda>k. None) ?base (parts (Path [directory]))
            = Some (Inr (safe_path, s))"
    by (auto simp: resolve_def split: option.splits sum.splits prod.splits)
  have "\<forall>k. readlink os k = None \<longrightarrow> s k = None"
    using resolve_names_seen_links [OF dir] by simp
  with etc passwd have
    "s (py_str (butlast (butlast safe_path) @ [''etc''])) = None"
    "s (py_str (butlast (butlast safe_path) @ [''etc'', ''passwd''])) = None"
    by simp_all
  with etc passwd have
    "resolve_names os depth s safe_path [''..'', ''..'', ''etc'', ''passwd'']
       = Some (Inr (butlast (butlast safe_path) @ [''etc'', ''passwd''], s))"
    by (simp add: Let_def)
  with dir show ?thesis
    by (simp add: resolve_def Path_dotdot_etc_passwd resolve_names_append)
qed

subsection \<open>\<open>safe_join\<close>\<close>

text \<open>
  C1. The claim: a candidate that is no path-component descendant of the directory but
  whose string starts with the directory's string makes \<open>safe_join\<close> raise
  \<open>NotFound\<close>. The code compares the strings: for the directory \<open>/a/b\<close> and the
  segment \<open>../b-evil/x\<close> the candidate resolves to \<open>/a/b-evil/x\<close>, whose components do
  not start with those of \<open>/a/b\<close>, and \<open>safe_join\<close> returns it.
\<close>

theorem safe_join_returns_sibling:
  "resolve plain_os depth (Path [''/a/b'']) = Some (Inr [''a'', ''b''])
   \<and> resolve plain_os depth (Path [''/a/b'', ''../b-evil/x'']) = Some (Inr [''a'', ''b-evil'', ''x''])
   \<and> \<not> prefix [''a'', ''b''] [''a'', ''b-evil'', ''x'']
   \<and> startswith (py_str [''a'', ''b-evil'', ''x'']) (py_str [''a'', ''b''])
   \<and> safe_join plain_os depth ''/a/b'' [''../b-evil/x''] = Some (Inr [''a'', ''b-evil'', ''x''])"
  by (simp add: safe_join_def resolve_def Path_def add_part_def path_names_def startswith_def
      py_str_def sep_def plain_os_def)

text \<open>
  C2, as stated: for every directory, \<open>safe_join(directory, "..", "..", "etc/passwd")\<close>
  raises \<open>NotFound\<close>. For the root directory the candidate \<open>/etc/passwd\<close> lies inside
  the directory, and is returned.
\<close>

theorem safe_join_etc_passwd_from_root:
  "safe_join plain_os 0 ''/'' [''..'', ''..'', ''etc/passwd''] = Some (Inr [''etc'', ''passwd''])
   \<and> safe_join plain_os 0 ''/'' [''..'', ''..'', ''etc/passwd''] \<noteq> Some (Inl NotFound)"
  by (simp add: safe_join_def resolve_def Path_def add_part_def path_names_def startswith_def
      py_str_def sep_def plain_os_def)

text \<open>
  C2, amended. Let \<open>safe_path\<close> be the resolved directory, and let the candidate
  resolve to \<open>safe_path\<close> without its last two components followed by \<open>etc/passwd\<close>, as
  it does whenever neither that \<open>etc\<close> nor that \<open>etc/passwd\<close> is a symbolic link.
  \<open>safe_join(directory, "..", "..", "etc/passwd")\<close> raises \<open>NotFound\<close> when \<open>safe_path\<close>
  has one component that is no prefix of \<open>etc\<close>, or two and more components of which
  the last two are not \<open>etc\<close> followed by a prefix of \<open>passwd\<close>. It returns the
  candidate whenever the components of the candidate start with those of \<open>safe_path\<close>.
\<close>

theorem safe_join_etc_passwd:
  assumes cwd_ok: "list_all (\<lambda>c. sep \<notin> set c) (cwd os)"
    and safe: "resolve os depth (Path [directory]) = Some (Inr safe_path)"
    and full: "resolve os depth (Path [directory, ''..'', ''..'', ''etc/passwd''])
                 = Some (Inr (butlast (butlast safe_path) @ [''etc'', ''passwd'']))"
  shows "((case rev safe_path of
             [] \<Rightarrow> False
           | [c] \<Rightarrow> \<not> prefix c ''etc''
           | b # a # ds \<Rightarrow> a \<noteq> ''etc'' \<or> \<not> prefix b ''passwd'')
          \<longrightarrow> safe_join os depth directory [''..'', ''..'', ''etc/passwd''] = Some (Inl NotFound))
       \<and> (prefix safe_path (butlast (butlast safe_path) @ [''etc'', ''passwd''])
          \<longrightarrow> safe_join os depth directory [''..'', ''..'', ''etc/passwd'']
                = Some (Inr (butlast (butlast safe_path) @ [''etc'', ''passwd''])))"
proof -
  let ?full = "butlast (butlast safe_path) @ [''etc'', ''passwd'']"
  let ?call = "safe_join os depth directory [''..'', ''..'', ''etc/passwd'']"
  have sj: "?call = (if \<not> prefix (py_str safe_path) (py_str ?full) then Some (Inl NotFound)
                     else Some (Inr ?full))"
    by (simp add: safe_join_def safe full startswith_def)
  have clean: "list_all (\<lambda>c. sep \<notin> set c) safe_path"
    using safe cwd_ok Path_parts_no_sep by (rule resolve_no_sep)
  have A: "?call = Some (Inl NotFound)"
    if h: "case rev safe_path of [] \<Rightarrow> False | [c] \<Rightarrow> \<not> prefix c ''etc''
             | b # a # ds \<Rightarrow> a \<noteq> ''etc'' \<or> \<not> prefix b ''passwd''"
  proof (cases safe_path rule: last_two_cases)
    case 1
    with h show ?thesis by simp
  next
    case (2 c)
    with h have np: "\<not> prefix c ''etc''" by simp
    from 2 clean have "sep \<notin> set c" by simp
    with np have "\<not> prefix c (''etc'' @ sep # ''passwd'')"
      using prefix_no_sep by blast
    then have "\<not> prefix (py_str safe_path) (py_str ?full)"
      using 2 by (simp add: py_str_def sep_def)
    then show ?thesis by (simp add: sj)
  next
    case (3 ds a b)
    with h have np: "a \<noteq> ''etc'' \<or> \<not> prefix b ''passwd''" by simp
    from 3 clean have "sep \<notin> set a" by simp
    moreover have "sep \<notin> set ''etc''" by (simp add: sep_def)
    ultimately have "\<not> prefix (a @ sep # b) (''etc'' @ sep # ''passwd'')"
      using np prefix_two_parts by blast
    moreover have "butlast (butlast safe_path) = ds"
      using 3 by (simp add: butlast_append)
    ultimately have "\<not> prefix (py_str safe_path) (py_str ?full)"
      using 3 by (simp add: py_str_def)
    then show ?thesis by (simp add: sj)
  qed
  have B: "?call = Some (Inr ?full)" if "prefix safe_path ?full"
    using py_str_prefix [OF that] by (simp add: sj)
  from A B show ?thesis by blast
qed

theorem safe_join_etc_passwd_witness:
  "list_all (\<lambda>c. sep \<notin> set c) (cwd linked_os)
   \<and> resolve linked_os 1 (Path [''/srv/www/blog/static/up'']) = Some (Inr [''srv'', ''www''])
   \<and> resolve linked_os 1 (Path [''/srv/www/blog/static/up'', ''..'', ''..'', ''etc/passwd''])
       = Some (Inr [''etc'', ''passwd''])
   \<and> safe_join linked_os 1 ''/srv/www/blog/static/up'' [''..'', ''..'', ''etc/passwd'']
       = Some (Inl NotFound)
   \<and> resolve linked_os 1 (Path [''/etc'']) = Some (Inr [''etc''])
   \<and> resolve linked_os 1 (Path [''/etc'', ''..'', ''..'', ''etc/passwd''])
       = Some (Inr [''etc'', ''passwd''])
   \<and> safe_join linked_os 1 ''/etc'' [''..'', ''..'', ''etc/passwd'']
       = Some (Inr [''etc'', ''passwd''])"
proof -
  have c: "list_all (\<lambda>c. sep \<notin> set c) (cwd linked_os)"
    by (simp add: linked_os_def plain_os_def sep_def)
  have r1: "resolve linked_os 1 (Path [''/srv/www/blog/static/up''])
              = Some (Inr [''srv'', ''www''])"
    by (simp add: resolve_def Path_def add_part_def path_names_def startswith_def sep_def
        py_str_def Let_def linked_os_def plain_os_def)
  have f1: "resolve linked_os 1 (Path [''/srv/www/blog/static/up'', ''..'', ''..'', ''etc/passwd''])
              = Some (Inr (butlast (butlast [''srv'', ''www'']) @ [''etc'', ''passwd'']))"
    by (simp add: resolve_def Path_def add_part_def path_names_def startswith_def sep_def
        py_str_def Let_def linked_os_def plain_os_def)
  have r2: "resolve linked_os 1 (Path [''/etc'']) = Some (Inr [''etc''])"
    by (simp add: resolve_def Path_def add_part_def path_names_def startswith_def sep_def
        py_str_def Let_def linked_os_def plain_os_def)
  have f2: "resolve linked_os 1 (Path [''/etc'', ''..'', ''..'', ''etc/passwd''])
              = Some (Inr (butlast (butlast [''etc'']) @ [''etc'', ''passwd'']))"
    by (simp add: resolve_def Path_def add_part_def path_names_def startswith_def sep_def
        py_str_def Let_def linked_os_def plain_os_def)
  show ?thesis
    using c r1 f1 r2 f2 safe_join_etc_passwd [OF c r1 f1] safe_join_etc_passwd [OF c r2 f2]
    by simp
qed

text \<open>
  C3. When the resolved candidate is a descendant of the resolved directory, or the
  directory itself, that is when its components start with those of the directory,
  \<open>safe_join\<close> returns the resolved candidate, and the string of the returned path
  starts with the string of the directory.
\<close>

theorem safe_join_descendant:
  assumes "resolve os depth (Path [directory]) = Some (Inr safe_path)"
    and "resolve os depth (Path (directory # paths)) = Some (Inr full_path)"
    and "prefix safe_path full_path"
  shows "safe_join os depth directory paths = Some (Inr full_path)
         \<and> prefix safe_path full_path
         \<and> startswith (py_str full_path) (py_str safe_path)"
  using assms py_str_prefix [of safe_path full_path]
  by (simp add: safe_join_def startswith_def)

theorem safe_join_descendant_witness:
  "resolve plain_os 0 (Path [''/srv/www/blog/static''])
     = Some (Inr [''srv'', ''www'', ''blog'', ''static''])
   \<and> resolve plain_os 0 (Path [''/srv/www/blog/static'', ''css/../index.html''])
       = Some (Inr [''srv'', ''www'', ''blog'', ''static'', ''index.html''])
   \<and> safe_join plain_os 0 ''/srv/www/blog/static'' [''css/../index.html'']
       = Some (Inr [''srv'', ''www'', ''blog'', ''static'', ''index.html''])
   \<and> resolve linked_os 1 (Path [''/srv/www/blog/static''])
       = Some (Inr [''srv'', ''www'', ''blog'', ''static''])
   \<and> resolve linked_os 1 (Path [''/srv/www/blog/static'', ''latest''])
       = Some (Inr [''srv'', ''www'', ''blog'', ''static'', ''index.html''])
   \<and> safe_join linked_os 1 ''/srv/www/blog/static'' [''latest'']
       = Some (Inr [''srv'', ''www'', ''blog'', ''static'', ''index.html''])"
proof -
  have r1: "resolve plain_os 0 (Path [''/srv/www/blog/static''])
              = Some (Inr [''srv'', ''www'', ''blog'', ''static''])"
    by (simp add: resolve_def Path_def add_part_def path_names_def startswith_def sep_def
        plain_os_def)
  have r2: "resolve plain_os 0 (Path [''/srv/www/blog/static'', ''css/../index.html''])
              = Some (Inr [''srv'', ''www'', ''blog'', ''static'', ''index.html''])"
    by (simp add: resolve_def Path_def add_part_def path_names_def startswith_def sep_def
        plain_os_def)
  have l1: "resolve linked_os 1 (Path [''/srv/www/blog/static''])
              = Some (Inr [''srv'', ''www'', ''blog'', ''static''])"
    by (simp add: resolve_def Path_def add_part_def path_names_def startswith_def sep_def
        py_str_def linked_os_def plain_os_def)
  have l2: "resolve linked_os 1 (Path [''/srv/www/blog/static'', ''latest''])
              = Some (Inr [''srv'', ''www'', ''blog'', ''static'', ''index.html''])"
    by (simp add: resolve_def Path_def add_part_def path_names_def startswith_def sep_def
        py_str_def linked_os_def plain_os_def)
  have p: "prefix [''srv'', ''www'', ''blog'', ''static'']
             [''srv'', ''www'', ''blog'', ''static'', ''index.html'']"
    by simp
  show ?thesis
    using r1 r2 l1 l2 safe_join_descendant [OF r1 r2 p] safe_join_descendant [OF l1 l2 p]
    by simp
qed

subsection \<open>Serving files\<close>

text \<open>
  C4. On a component without a static folder, \<open>send_static_file\<close> raises
  \<open>RuntimeError\<close> for every file name: an error other than \<open>NotFound\<close>. No response is
  returned and no file is opened.
\<close>

theorem send_static_file_no_static_folder:
  assumes "static_folder_attr self = None"
  shows "send_static_file rt os depth self filename
           = Some (Inl (RuntimeError ''No static folder for this object''), os)
         \<and> RuntimeError ''No static folder for this object'' \<noteq> NotFound"
  using assms by (simp add: send_static_file_def has_static_folder_def static_folder_def)

theorem send_static_file_no_static_folder_witness:
  "static_folder_attr bare_package = None
   \<and> send_static_file script_runtime plain_os 0 bare_package ''index.html''
       = Some (Inl (RuntimeError ''No static folder for this object''), plain_os)"
proof -
  have h: "static_folder_attr bare_package = None"
    by (simp add: bare_package_def)
  show ?thesis
    using h send_static_file_no_static_folder [OF h, of script_runtime plain_os 0 "''index.html''"]
    by simp
qed

text \<open>
  C5. When \<open>safe_join\<close> succeeds and the resolved path is not an existing regular file
  (nothing is there, or a directory or another kind of entry), \<open>send_from_directory\<close>
  raises \<open>NotFound\<close> and leaves the operating system as it was: no file is opened.
\<close>

theorem send_from_directory_not_a_file:
  assumes "safe_join os depth directory [file_name] = Some (Inr file_path)"
    and "stat os (py_str file_path) \<noteq> Some Regular"
  shows "send_from_directory rt os depth directory file_name = Some (Inl NotFound, os)"
  using assms by (simp add: send_from_directory_def os_path_isfile_def)

theorem send_from_directory_not_a_file_witness:
  "safe_join plain_os 0 ''/srv/www/blog/static'' [''missing.txt'']
     = Some (Inr [''srv'', ''www'', ''blog'', ''static'', ''missing.txt''])
   \<and> stat plain_os (py_str [''srv'', ''www'', ''blog'', ''static'', ''missing.txt'']) = None
   \<and> send_from_directory script_runtime plain_os 0 ''/srv/www/blog/static'' ''missing.txt''
       = Some (Inl NotFound, plain_os)
   \<and> safe_join plain_os 0 ''/srv/www/blog'' [''static'']
       = Some (Inr [''srv'', ''www'', ''blog'', ''static''])
   \<and> stat plain_os (py_str [''srv'', ''www'', ''blog'', ''static'']) = Some Directory
   \<and> send_from_directory script_runtime plain_os 0 ''/srv/www/blog'' ''static''
       = Some (Inl NotFound, plain_os)"
proof -
  have j1: "safe_join plain_os 0 ''/srv/www/blog/static'' [''missing.txt'']
              = Some (Inr [''srv'', ''www'', ''blog'', ''static'', ''missing.txt''])"
    by (simp add: safe_join_def resolve_def Path_def add_part_def path_names_def startswith_def
        py_str_def sep_def plain_os_def)
  have s1: "stat plain_os (py_str [''srv'', ''www'', ''blog'', ''static'', ''missing.txt'']) = None"
    by (simp add: py_str_def sep_def plain_os_def)
  have j2: "safe_join plain_os 0 ''/srv/www/blog'' [''static'']
              = Some (Inr [''srv'', ''www'', ''blog'', ''static''])"
    by (simp add: safe_join_def resolve_def Path_def add_part_def path_names_def startswith_def
        py_str_def sep_def plain_os_def)
  have s2: "stat plain_os (py_str [''srv'', ''www'', ''blog'', ''static'']) = Some Directory"
    by (simp add: py_str_def sep_def plain_os_def)
  have n1: "stat plain_os (py_str [''srv'', ''www'', ''blog'', ''static'', ''missing.txt''])
              \<noteq> Some Regular"
    using s1 by simp
  have n2: "stat plain_os (py_str [''srv'', ''www'', ''blog'', ''static'']) \<noteq> Some Regular"
    using s2 by simp
  show ?thesis
    using j1 s1 j2 s2
      send_from_directory_not_a_file [OF j1 n1, of script_runtime]
      send_from_directory_not_a_file [OF j2 n2, of script_runtime]
    by simp
qed

text \<open>
  C6. \<open>send_file\<close> asks the type table for the base name of the path and takes
  \<open>application/octet-stream\<close> when the table has no answer; when the file can be
  read, the response carries exactly the bytes of the file and that content type.
\<close>

theorem send_file_response:
  "(fst (guess_type rt (os_path_basename filename)) = None
      \<longrightarrow> guess_mimetype rt filename = ''application/octet-stream'')
   \<and> (\<forall>t. fst (guess_type rt (os_path_basename filename)) = Some t \<and> t \<noteq> []
      \<longrightarrow> guess_mimetype rt filename = t)
   \<and> (\<forall>data. content os filename = Some data
      \<longrightarrow> send_file rt os filename
            = (Inr \<lparr>body = data, content_type = guess_mimetype rt filename, status = 200\<rparr>,
               os\<lparr>opened := opened os @ [(filename, ''rb'')]\<rparr>))"
  by (simp add: guess_mimetype_def DEFAULT_MIMETYPE_def send_file_def py_open_def
      response_class_def Let_def)

theorem send_file_response_witness:
  "fst (guess_type script_runtime (os_path_basename ''/srv/www/blog/static/LICENSE'')) = None
   \<and> content plain_os ''/srv/www/blog/static/LICENSE'' = Some ''MIT''
   \<and> send_file script_runtime plain_os ''/srv/www/blog/static/LICENSE''
       = (Inr \<lparr>body = ''MIT'', content_type = ''application/octet-stream'', status = 200\<rparr>,
          plain_os\<lparr>opened := [(''/srv/www/blog/static/LICENSE'', ''rb'')]\<rparr>)
   \<and> fst (guess_type script_runtime (os_path_basename ''/srv/www/blog/static/index.html''))
       = Some ''text/html''
   \<and> content plain_os ''/srv/www/blog/static/index.html'' = Some ''<html></html>''
   \<and> send_file script_runtime plain_os ''/srv/www/blog/static/index.html''
       = (Inr \<lparr>body = ''<html></html>'', content_type = ''text/html'', status = 200\<rparr>,
          plain_os\<lparr>opened := [(''/srv/www/blog/static/index.html'', ''rb'')]\<rparr>)"
proof -
  have g1: "fst (guess_type script_runtime (os_path_basename ''/srv/www/blog/static/LICENSE''))
              = None"
    by (simp add: script_runtime_def os_path_basename_def sep_def suffix_def)
  have c1: "content plain_os ''/srv/www/blog/static/LICENSE'' = Some ''MIT''"
    by (simp add: plain_os_def)
  have g2: "fst (guess_type script_runtime (os_path_basename ''/srv/www/blog/static/index.html''))
              = Some ''text/html''"
    by (simp add: script_runtime_def os_path_basename_def sep_def suffix_def)
  have c2: "content plain_os ''/srv/www/blog/static/index.html'' = Some ''<html></html>''"
    by (simp add: plain_os_def)
  have o: "opened plain_os = []"
    by (simp add: plain_os_def)
  show ?thesis
    using g1 c1 g2 c2 o
      send_file_response [of script_runtime "''/srv/www/blog/static/LICENSE''" plain_os]
      send_file_response [of script_runtime "''/srv/www/blog/static/index.html''" plain_os]
    by simp
qed

subsection \<open>\<open>PackageStatic\<close>\<close>

text \<open>
  C7. With an explicit root path, \<open>_find_root_path\<close> returns that path as it is given,
  whatever the interpreter and the file system hold, and the constructor stores it.
\<close>

theorem find_root_path_explicit:
  "find_root_path rt os name (Some root) = Inr root
   \<and> PackageStatic rt os name folder (Some root)
       = Inr \<lparr>import_name = name, template_folder = folder, root_path = root,
              static_folder_attr = None, static_url_path_attr = None\<rparr>"
  by (simp add: find_root_path_def PackageStatic_def)

theorem find_root_path_explicit_witness:
  "find_root_path script_runtime plain_os ''blog'' (Some ''no/such/../dir'') = Inr ''no/such/../dir''
   \<and> stat plain_os ''no/such/../dir'' = None"
  using find_root_path_explicit [of script_runtime plain_os "''blog''" "''no/such/../dir''" None]
  by (simp add: plain_os_def)

text \<open>
  Without an explicit root, two exceptions leave \<open>_find_root_path\<close>: the \<open>ImportError\<close>
  of \<open>pkgutil.get_loader\<close>, here for the name \<open>nosuch.sub\<close>, and the \<open>TypeError\<close> of
  \<open>os.path.abspath\<close> for a loaded module whose \<open>__file__\<close> is \<open>None\<close>.
\<close>

lemma find_root_path_raises:
  "find_root_path script_runtime plain_os ''nosuch.sub'' None
     = Inl (ImportError ''Error while finding loader for nosuch.sub'')
   \<and> find_root_path script_runtime plain_os ''ns'' None
     = Inl (TypeError ''expected str, bytes or os.PathLike object, not NoneType'')"
  by (simp add: find_root_path_def dirname_abspath_def script_runtime_def)

text \<open>
  C8, as stated: for the entry-point name \<open>__main__\<close> the root is the working
  directory. In an interpreter started on a script, \<open>__main__\<close> is a loaded module
  with a file, and the root is the directory of the script.
\<close>

theorem find_root_path_main_script:
  "find_root_path script_runtime plain_os ''__main__'' None = Inr ''/srv/www''
   \<and> getcwd plain_os = ''/home/u''
   \<and> find_root_path script_runtime plain_os ''__main__'' None \<noteq> Inr (getcwd plain_os)"
  by (simp add: find_root_path_def dirname_abspath_def script_runtime_def plain_os_def getcwd_def
      os_path_abspath_def os_path_normpath_def os_path_dirname_def startswith_def sep_def)

text \<open>
  C8, amended. For every name that has no loaded module with a \<open>__file__\<close> attribute,
  and for which \<open>pkgutil.get_loader\<close> returns, finding no loader or, for the name
  \<open>__main__\<close>, any loader, \<open>_find_root_path\<close> without an explicit root returns the
  working directory. Nothing is said of a name for which \<open>pkgutil.get_loader\<close> raises.
\<close>

theorem find_root_path_cwd:
  assumes "sys_modules rt name = None \<or> sys_modules rt name = Some \<lparr>file_attr = None\<rparr>"
    and "get_loader rt name = Inr None
         \<or> (\<exists>loader. get_loader rt name = Inr (Some loader) \<and> name = ''__main__'')"
  shows "find_root_path rt os name None = Inr (getcwd os)"
  using assms by (auto simp: find_root_path_def)

theorem find_root_path_cwd_witness:
  "sys_modules script_runtime ''nosuch'' = None
   \<and> get_loader script_runtime ''nosuch'' = Inr None
   \<and> find_root_path script_runtime plain_os ''nosuch'' None = Inr ''/home/u''
   \<and> sys_modules interactive_runtime ''__main__'' = Some \<lparr>file_attr = None\<rparr>
   \<and> (\<exists>loader. get_loader interactive_runtime ''__main__'' = Inr (Some loader))
   \<and> find_root_path interactive_runtime plain_os ''__main__'' None = Inr ''/home/u''"
proof -
  have m1: "sys_modules script_runtime ''nosuch'' = None"
    by (simp add: script_runtime_def)
  have l1: "get_loader script_runtime ''nosuch'' = Inr None"
    by (simp add: script_runtime_def)
  have m2: "sys_modules interactive_runtime ''__main__'' = Some \<lparr>file_attr = None\<rparr>"
    by (simp add: interactive_runtime_def)
  have l2: "\<exists>loader. get_loader interactive_runtime ''__main__'' = Inr (Some loader)"
    by (simp add: interactive_runtime_def)
  have c: "getcwd plain_os = ''/home/u''"
    by (simp add: getcwd_def plain_os_def sep_def)
  show ?thesis
    using m1 l1 m2 l2 c
      find_root_path_cwd [of script_runtime "''nosuch''" plain_os]
      find_root_path_cwd [of interactive_runtime "''__main__''" plain_os]
    by simp
qed

text \<open>
  C9. An explicit static URL path is returned as it is. Without one, a component with
  a static folder has the URL path \<open>/\<close> followed by the base name of the folder, so
  two folders with the same base name give the same URL path; a component without a
  static folder has no URL path.
\<close>

theorem static_url_path_derived:
  "(\<forall>url. static_url_path_attr self = Some url \<longrightarrow> static_url_path self = Some url)
   \<and> (static_url_path_attr self = None \<and> static_folder self = None
      \<longrightarrow> static_url_path self = None)
   \<and> (\<forall>folder. static_url_path_attr self = None \<and> static_folder self = Some folder
      \<longrightarrow> static_url_path self = Some (CHR ''/'' # os_path_basename folder))
   \<and> (\<forall>folder folder'. static_url_path_attr self = None \<and> static_url_path_attr self' = None
        \<and> static_folder self = Some folder \<and> static_folder self' = Some folder'
        \<and> os_path_basename folder = os_path_basename folder'
      \<longrightarrow> static_url_path self = static_url_path self')"
  by (simp add: static_url_path_def sep_def)

theorem static_url_path_derived_witness:
  "static_url_path_attr blog_package = None
   \<and> static_folder blog_package = Some ''/srv/www/blog/static''
   \<and> static_url_path blog_package = Some ''/static''
   \<and> static_url_path_attr bare_package = None
   \<and> static_folder bare_package = None
   \<and> static_url_path bare_package = None
   \<and> static_url_path (set_static_url_path blog_package ''/assets'') = Some ''/assets''"
proof -
  have u1: "static_url_path_attr blog_package = None"
    by (simp add: blog_package_def)
  have f1: "static_folder blog_package = Some ''/srv/www/blog/static''"
    by (simp add: blog_package_def static_folder_def os_path_join_def startswith_def sep_def)
  have b1: "os_path_basename ''/srv/www/blog/static'' = ''static''"
    by (simp add: os_path_basename_def sep_def)
  have u2: "static_url_path_attr bare_package = None"
    by (simp add: bare_package_def)
  have f2: "static_folder bare_package = None"
    by (simp add: bare_package_def static_folder_def)
  have u3: "static_url_path_attr (set_static_url_path blog_package ''/assets'') = Some ''/assets''"
    by (simp add: set_static_url_path_def)
  show ?thesis
    using u1 f1 b1 u2 f2 u3
      static_url_path_derived [of blog_package blog_package]
      static_url_path_derived [of bare_package bare_package]
      static_url_path_derived [of "set_static_url_path blog_package ''/assets''" blog_package]
    by simp
qed

text \<open>
  C10. For every mode other than \<open>r\<close> and \<open>rb\<close>, \<open>open_resource\<close> raises \<open>ValueError\<close>
  and opens nothing; with \<open>r\<close> or \<open>rb\<close> it opens the path under the root. Whatever the
  mode, the entries and the contents of the file system stay as they were.
\<close>

theorem open_resource_read_only:
  "(mode \<noteq> ''r'' \<and> mode \<noteq> ''rb''
      \<longrightarrow> open_resource self os path mode
            = (Inl (ValueError ''Files can only be opened for reading''), os))
   \<and> (mode = ''r'' \<or> mode = ''rb''
      \<longrightarrow> open_resource self os path mode = py_open os (os_path_join (root_path self) path) mode)
   \<and> content (snd (open_resource self os path mode)) = content os
   \<and> stat (snd (open_resource self os path mode)) = stat os
   \<and> readlink (snd (open_resource self os path mode)) = readlink os"
  by (auto simp: open_resource_def py_open_def Let_def split: option.splits)

theorem open_resource_read_only_witness:
  "open_resource blog_package plain_os ''static/LICENSE'' ''w''
     = (Inl (ValueError ''Files can only be opened for reading''), plain_os)
   \<and> open_resource blog_package plain_os ''static/LICENSE'' ''a''
     = (Inl (ValueError ''Files can only be opened for reading''), plain_os)
   \<and> open_resource blog_package plain_os ''static/LICENSE'' ''rb+''
     = (Inl (ValueError ''Files can only be opened for reading''), plain_os)
   \<and> opened (snd (open_resource blog_package plain_os ''static/LICENSE'' ''rb+'')) = []
   \<and> open_resource blog_package plain_os ''static/LICENSE'' ''rb''
     = (Inr (FileHandle ''/srv/www/blog/static/LICENSE'' ''rb'' ''MIT''),
        plain_os\<lparr>opened := [(''/srv/www/blog/static/LICENSE'', ''rb'')]\<rparr>)"
proof -
  have o: "opened plain_os = []"
    by (simp add: plain_os_def)
  have p: "py_open plain_os (os_path_join (root_path blog_package) ''static/LICENSE'') ''rb''
             = (Inr (FileHandle ''/srv/www/blog/static/LICENSE'' ''rb'' ''MIT''),
                plain_os\<lparr>opened := [(''/srv/www/blog/static/LICENSE'', ''rb'')]\<rparr>)"
    by (simp add: py_open_def os_path_join_def blog_package_def startswith_def sep_def
        plain_os_def)
  show ?thesis
    using o p
      open_resource_read_only [of "''w''" blog_package plain_os "''static/LICENSE''"]
      open_resource_read_only [of "''a''" blog_package plain_os "''static/LICENSE''"]
      open_resource_read_only [of "''rb+''" blog_package plain_os "''static/LICENSE''"]
      open_resource_read_only [of "''rb''" blog_package plain_os "''static/LICENSE''"]
    by simp
qed

end
